theory Spec2Isabelle
  imports Complex_Main
begin

section \<open>Python values, exceptions and the world outside the script\<close>

text \<open>
  The script \<^verbatim>\<open>scripts/generate_kernel_ref_data.py\<close> handles numbers, strings, lists
  and keyword dictionaries, and objects of the descriptor library that it never looks
  into. A dictionary keeps its insertion order, so it is an association list.
\<close>

datatype pyval =
    PNone
  | PBool bool
  | PInt int
  | PFloat real
  | PStr string
  | PList "pyval list"
  | PDict "(string \<times> pyval) list"

type_synonym dict = "(string \<times> pyval) list"

datatype exn =
    KeyError string
  | TypeError string
  | IndexError string
  | AttributeError string
  | FileNotFoundError string
  | UnboundLocalError string
  | LibraryError string

text \<open>
  What a run does that can be seen from outside: the lines it prints, and the keyword
  arguments it hands to the two constructors of the descriptor library.
\<close>

datatype event =
    Print "pyval list"
  | SphericalInvariant_called dict
  | Kernel_called dict

record world =
  files :: "string \<Rightarrow> string option"
  sys_path :: "string list"
  trace :: "event list"

text \<open>
  The libraries the script imports (ase, rascal, numpy, ubjson, the file system behind
  \<^verbatim>\<open>open\<close>) are not part of the repository. They are parameters: every call returns
  a value or raises, is a function of its arguments, and leaves the files alone; only
  the \<^verbatim>\<open>with open\<close> block of the script writes.
\<close>

record lib =
  import_ubjson :: "exn option"
  parse_frames :: "string \<Rightarrow> string \<Rightarrow> exn + pyval"
  SphericalInvariant :: "dict \<Rightarrow> exn + pyval"
  soap_hypers :: "pyval \<Rightarrow> pyval"
  transform :: "pyval \<Rightarrow> pyval \<Rightarrow> exn + pyval"
  Kernel :: "pyval \<Rightarrow> dict \<Rightarrow> exn + pyval"
  kernel_call :: "pyval \<Rightarrow> pyval \<Rightarrow> exn + pyval"
  tolist :: "pyval \<Rightarrow> pyval"
  open_wb :: "string \<Rightarrow> exn option"
  ubjson_dump :: "pyval \<Rightarrow> string \<times> exn option"

section \<open>The Python primitives the script uses\<close>

definition getitem :: "(string \<times> 'v) list \<Rightarrow> string \<Rightarrow> exn + 'v" where
  \<comment> \<open>\<^verbatim>\<open>d[k]\<close>: a missing key raises KeyError\<close>
  "getitem d k = (case map_of d k of None \<Rightarrow> Inl (KeyError k) | Some v \<Rightarrow> Inr v)"

fun setitem :: "dict \<Rightarrow> string \<Rightarrow> pyval \<Rightarrow> dict" where
  \<comment> \<open>\<^verbatim>\<open>d[k] = v\<close>: an existing key keeps its place, a new one goes last\<close>
  "setitem [] k v = [(k, v)]"
| "setitem ((k', v') # d) k v = (if k' = k then (k, v) # d else (k', v') # setitem d k v)"

definition update_kw :: "dict \<Rightarrow> dict \<Rightarrow> dict" where
  \<comment> \<open>\<^verbatim>\<open>d.update(**kwargs)\<close>\<close>
  "update_kw d kwargs = foldl (\<lambda>acc (k, v). setitem acc k v) d kwargs"

definition copy :: "pyval list \<Rightarrow> exn + pyval" where
  \<comment> \<open>\<^verbatim>\<open>copy.copy(x)\<close>, called with the list of its positional arguments\<close>
  "copy args = (case args of
      [x] \<Rightarrow> Inr x
    | _ \<Rightarrow> Inl (TypeError ''copy() takes exactly 1 positional argument''))"

definition getattr_append :: "pyval \<Rightarrow> exn + pyval list" where
  \<comment> \<open>\<^verbatim>\<open>obj.append\<close>: only a list has the method\<close>
  "getattr_append obj = (case obj of
      PList xs \<Rightarrow> Inr xs
    | _ \<Rightarrow> Inl (AttributeError ''append''))"

definition call_append :: "pyval list \<Rightarrow> pyval list \<Rightarrow> dict \<Rightarrow> exn + pyval list" where
  \<comment> \<open>\<^verbatim>\<open>list.append(*args, **kw)\<close> on the list with elements xs\<close>
  "call_append xs args kw =
     (if kw \<noteq> [] then Inl (TypeError ''append() takes no keyword arguments'')
      else case args of
          [x] \<Rightarrow> Inr (xs @ [x])
        | _ \<Rightarrow> Inl (TypeError ''append() takes exactly one argument''))"

definition index_last :: "pyval \<Rightarrow> exn + pyval" where
  \<comment> \<open>\<^verbatim>\<open>obj[-1]\<close>\<close>
  "index_last obj = (case obj of
      PList xs \<Rightarrow> (if xs = [] then Inl (IndexError ''list index out of range'') else Inr (last xs))
    | _ \<Rightarrow> Inl (TypeError ''object is not subscriptable''))"

definition path_join :: "string \<Rightarrow> string \<Rightarrow> string" where
  \<comment> \<open>\<^verbatim>\<open>os.path.join(a, b)\<close> on POSIX\<close>
  "path_join a b =
     (if b \<noteq> [] \<and> hd b = CHR ''/'' then b
      else if a = [] \<or> last a = CHR ''/'' then a @ b
      else a @ ''/'' @ b)"

fun str_nat :: "nat \<Rightarrow> string" where
  "str_nat n = (if n < 10 then [''0123456789'' ! n]
                else str_nat (n div 10) @ [''0123456789'' ! (n mod 10)])"

declare str_nat.simps [simp del]

definition str_int :: "int \<Rightarrow> string" where
  "str_int i = (if i < 0 then CHR ''-'' # str_nat (nat (- i)) else str_nat (nat i))"

definition format_slice :: "int \<Rightarrow> int \<Rightarrow> string" where
  \<comment> \<open>\<^verbatim>\<open>'{}:{}'.format(a, b)\<close>\<close>
  "format_slice a b = str_int a @ '':'' @ str_int b"

definition eq_True :: "pyval \<Rightarrow> bool" where
  \<comment> \<open>\<^verbatim>\<open>v == True\<close>: bool is a numeric type, so 1 and 1.0 compare equal to True\<close>
  "eq_True v = (case v of
      PBool b \<Rightarrow> b
    | PInt i \<Rightarrow> i = 1
    | PFloat r \<Rightarrow> r = 1
    | _ \<Rightarrow> False)"

definition truthy :: "pyval \<Rightarrow> bool" where
  \<comment> \<open>\<^verbatim>\<open>bool(v)\<close>\<close>
  "truthy v = (case v of
      PNone \<Rightarrow> False
    | PBool b \<Rightarrow> b
    | PInt i \<Rightarrow> i \<noteq> 0
    | PFloat r \<Rightarrow> r \<noteq> 0
    | PStr s \<Rightarrow> s \<noteq> []
    | PList xs \<Rightarrow> xs \<noteq> []
    | PDict d \<Rightarrow> d \<noteq> [])"

section \<open>The constants of \<^verbatim>\<open>dump_reference_json\<close>\<close>

record grid =
  cutoffs :: "real list"
  gaussian_sigmas :: "real list"
  max_radials :: "int list"
  max_angulars :: "int list"
  soap_types :: "string list"
  kernel_names :: "string list"
  target_types :: "string list"
  dependant_args :: "(string \<times> dict list) list"

definition code_grid :: grid where
  \<comment> \<open>lines 26-30 and 37-39\<close>
  "code_grid = \<lparr>
     cutoffs = [3.5],
     gaussian_sigmas = [0.5],
     max_radials = [6],
     max_angulars = [6],
     soap_types = [''RadialSpectrum'', ''PowerSpectrum''],
     kernel_names = [''Cosine''],
     target_types = [''structure'', ''atom''],
     dependant_args =
       [(''cosine'', [[(''zeta'', PInt 1)], [(''zeta'', PInt 2)], [(''zeta'', PInt 4)]])] \<rparr>"

definition path :: string where
  "path = ''../''"

definition fn :: string where
  "fn = path_join path ''tests/reference_data/dft-smiles_500.xyz''"

definition fn_to_write :: string where
  "fn_to_write = path_join path ''reference_data/dft-smiles_500.ubjson''"

definition start :: int where
  "start = 0"

definition length_c :: int where
  \<comment> \<open>the local \<^verbatim>\<open>length\<close>\<close>
  "length_c = 5"

definition output_file :: string where
  \<comment> \<open>the path opened at line 89\<close>
  "output_file = path @ ''tests/reference_data/kernel_reference.ubjson''"

definition py_dependant_args :: "(string \<times> dict list) list \<Rightarrow> pyval" where
  "py_dependant_args da = PDict (map (\<lambda>(k, kws). (k, PList (map PDict kws))) da)"

definition init_data :: "grid \<Rightarrow> dict" where
  \<comment> \<open>lines 41-51\<close>
  "init_data g =
    [(''filename'', PStr fn_to_write),
     (''start'', PInt start),
     (''length'', PInt length_c),
     (''cutoffs'', PList (map PFloat (cutoffs g))),
     (''gaussian_sigmas'', PList (map PFloat (gaussian_sigmas g))),
     (''max_radials'', PList (map PInt (max_radials g))),
     (''soap_types'', PList (map PStr (soap_types g))),
     (''kernel_names'', PList (map PStr (kernel_names g))),
     (''target_types'', PList (map PStr (target_types g))),
     (''dependant_args'', py_dependant_args (dependant_args g)),
     (''rep_info'', PList [])]"

section \<open>The grid traversal\<close>

text \<open>
  The locals of \<^verbatim>\<open>dump_reference_json\<close> that change while it runs: the record
  \<^verbatim>\<open>data\<close>, and the variable \<^verbatim>\<open>max_angular\<close>, which the innermost \<^verbatim>\<open>for\<close>
  binds and the loop body may assign again. The other loop variables are bound by their
  \<^verbatim>\<open>for\<close> statement only, so they are arguments of the body.
\<close>

record locals =
  env :: world
  data :: dict
  max_angular :: "int option"

definition emit :: "event \<Rightarrow> locals \<Rightarrow> locals" where
  "emit e st = st\<lparr>env := (env st)\<lparr>trace := trace (env st) @ [e]\<rparr>\<rparr>"

fun for_each :: "'a list \<Rightarrow> ('a \<Rightarrow> locals \<Rightarrow> exn option \<times> locals) \<Rightarrow> locals \<Rightarrow> exn option \<times> locals" where
  \<comment> \<open>\<^verbatim>\<open>for x in xs: body\<close>; an exception in the body ends the loop\<close>
  "for_each [] body st = (None, st)"
| "for_each (x # xs) body st =
     (case body x st of
        (None, st') \<Rightarrow> for_each xs body st'
      | (Some e, st') \<Rightarrow> (Some e, st'))"

definition hypers_of :: "real \<Rightarrow> int \<Rightarrow> int \<Rightarrow> real \<Rightarrow> string \<Rightarrow> dict" where
  \<comment> \<open>lines 67-76\<close>
  "hypers_of cutoff max_radial max_ang gaussian_sigma soap_type =
    [(''interaction_cutoff'', PFloat cutoff),
     (''cutoff_smooth_width'', PFloat 0.5),
     (''max_radial'', PInt max_radial),
     (''max_angular'', PInt max_ang),
     (''gaussian_sigma_type'', PStr ''Constant''),
     (''gaussian_sigma_constant'', PFloat gaussian_sigma),
     (''soap_type'', PStr soap_type),
     (''cutoff_function_type'', PStr ''Cosine''),
     (''normalize'', PBool True),
     (''radial_basis'', PStr ''GTO'')]"

definition new_row :: "dict \<Rightarrow> exn + dict" where
  \<comment> \<open>line 56: \<^verbatim>\<open>data['rep_info'].append([])\<close>\<close>
  "new_row d =
     (case getitem d ''rep_info'' of Inl e \<Rightarrow> Inl e | Inr ri \<Rightarrow>
      case getattr_append ri of Inl e \<Rightarrow> Inl e | Inr rows \<Rightarrow>
      case call_append rows [PList []] [] of Inl e \<Rightarrow> Inl e | Inr rows' \<Rightarrow>
      Inr (setitem d ''rep_info'' (PList rows')))"

definition append_bundle :: "lib \<Rightarrow> pyval \<Rightarrow> pyval \<Rightarrow> locals \<Rightarrow> exn option \<times> locals" where
  \<comment> \<open>lines 85-87. Python evaluates the callee \<^verbatim>\<open>data['rep_info'][-1].append\<close>, then the
      positional argument \<^verbatim>\<open>dict(kernel_matrix=..., hypers_rep=...)\<close>, then the keyword
      argument \<^verbatim>\<open>hypers_kernel=copy()\<close>, then calls.\<close>
  "append_bundle L kk soap st =
     (case getitem (data st) ''rep_info'' of Inl e \<Rightarrow> (Some e, st) | Inr ri \<Rightarrow>
      case index_last ri of Inl e \<Rightarrow> (Some e, st) | Inr row \<Rightarrow>
      case getattr_append row of Inl e \<Rightarrow> (Some e, st) | Inr bundles \<Rightarrow>
      case copy [soap_hypers L soap] of Inl e \<Rightarrow> (Some e, st) | Inr hr \<Rightarrow>
      let bundle = PDict [(''kernel_matrix'', tolist L kk), (''hypers_rep'', hr)] in
      case copy [] of Inl e \<Rightarrow> (Some e, st) | Inr hk \<Rightarrow>
      case call_append bundles [bundle] [(''hypers_kernel'', hk)] of
        Inl e \<Rightarrow> (Some e, st)
      | Inr bundles' \<Rightarrow>
         (case ri of
            PList rows \<Rightarrow>
              (None, st\<lparr>data := setitem (data st) ''rep_info''
                                   (PList (butlast rows @ [PList bundles']))\<rparr>)
          | _ \<Rightarrow> (Some (TypeError ''object is not subscriptable''), st)))"

definition loop_body ::
  "lib \<Rightarrow> pyval \<Rightarrow> real \<Rightarrow> string \<Rightarrow> string \<Rightarrow> dict \<Rightarrow> string \<Rightarrow> real \<Rightarrow> int \<Rightarrow> locals
     \<Rightarrow> exn option \<times> locals" where
  \<comment> \<open>lines 64-87\<close>
  "loop_body L frames cutoff kernel_name target_type kwargs soap_type gaussian_sigma max_radial st0 =
     (let st1 = (if ''RadialSpectrum'' = soap_type then st0\<lparr>max_angular := Some 0\<rparr> else st0) in
      case max_angular st1 of
        None \<Rightarrow> (Some (UnboundLocalError ''max_angular''), st1)
      | Some ma \<Rightarrow>
      let hypers = hypers_of cutoff max_radial ma gaussian_sigma soap_type;
          st2 = emit (SphericalInvariant_called hypers) st1 in
      case SphericalInvariant L hypers of Inl e \<Rightarrow> (Some e, st2) | Inr soap \<Rightarrow>
      case transform L soap frames of Inl e \<Rightarrow> (Some e, st2) | Inr soap_vectors \<Rightarrow>
      let hypers_kernel =
            update_kw [(''name'', PStr kernel_name), (''target_type'', PStr target_type)] kwargs;
          st3 = emit (Kernel_called hypers_kernel) st2 in
      case Kernel L soap hypers_kernel of Inl e \<Rightarrow> (Some e, st3) | Inr kern \<Rightarrow>
      case kernel_call L kern soap_vectors of Inl e \<Rightarrow> (Some e, st3) | Inr kk \<Rightarrow>
      append_bundle L kk soap st3)"

definition iteration ::
  "lib \<Rightarrow> pyval \<Rightarrow> real \<Rightarrow> string \<Rightarrow> string \<Rightarrow> dict \<Rightarrow> string \<Rightarrow> real \<Rightarrow> int \<Rightarrow> int \<Rightarrow> locals
     \<Rightarrow> exn option \<times> locals" where
  \<comment> \<open>one round of \<^verbatim>\<open>for max_angular in max_angulars\<close> (line 63): bind the variable, run the body\<close>
  "iteration L frames cutoff kernel_name target_type kwargs soap_type gaussian_sigma max_radial a st =
     loop_body L frames cutoff kernel_name target_type kwargs soap_type gaussian_sigma max_radial
       (st\<lparr>max_angular := Some a\<rparr>)"

definition grid_loop :: "lib \<Rightarrow> grid \<Rightarrow> pyval \<Rightarrow> locals \<Rightarrow> exn option \<times> locals" where
  \<comment> \<open>lines 54-87\<close>
  "grid_loop L g frames =
     for_each (cutoffs g) (\<lambda>cutoff st.
       let st' = emit (Print [PStr fn, PFloat cutoff]) st in
       case new_row (data st') of Inl e \<Rightarrow> (Some e, st') | Inr d \<Rightarrow>
       for_each (kernel_names g) (\<lambda>kernel_name.
         for_each (target_types g) (\<lambda>target_type st.
           case getitem (dependant_args g) kernel_name of Inl e \<Rightarrow> (Some e, st) | Inr kws \<Rightarrow>
           for_each kws (\<lambda>kwargs.
             for_each (soap_types g) (\<lambda>soap_type.
               for_each (gaussian_sigmas g) (\<lambda>gaussian_sigma.
                 for_each (max_radials g) (\<lambda>max_radial.
                   for_each (max_angulars g)
                     (iteration L frames cutoff kernel_name target_type kwargs
                        soap_type gaussian_sigma max_radial))))) st))
         (st'\<lparr>data := d\<rparr>))"

definition read :: "lib \<Rightarrow> world \<Rightarrow> string \<Rightarrow> string \<Rightarrow> exn + pyval" where
  \<comment> \<open>\<^verbatim>\<open>ase.io.read(filename, index)\<close>: opening a path that does not exist raises, the
      parsing of an existing file is the library's\<close>
  "read L w filename index =
     (case files w filename of
        None \<Rightarrow> Inl (FileNotFoundError filename)
      | Some content \<Rightarrow> parse_frames L content index)"

definition traverse :: "lib \<Rightarrow> grid \<Rightarrow> world \<Rightarrow> exn option \<times> locals" where
  \<comment> \<open>lines 41-87: build \<^verbatim>\<open>data\<close>, read the frames, walk the grid\<close>
  "traverse L g w =
     (let st = \<lparr>env = w, data = init_data g, max_angular = None\<rparr> in
      case read L w fn (format_slice start (start + length_c)) of
        Inl e \<Rightarrow> (Some e, st)
      | Inr frames \<Rightarrow> grid_loop L g frames st)"

definition write_output :: "lib \<Rightarrow> dict \<Rightarrow> world \<Rightarrow> exn option \<times> world" where
  \<comment> \<open>lines 89-90: \<^verbatim>\<open>open(..., 'wb')\<close> creates or empties the file, \<^verbatim>\<open>ubjson.dump\<close> fills it\<close>
  "write_output L d w =
     (case open_wb L output_file of
        Some e \<Rightarrow> (Some e, w)
      | None \<Rightarrow>
         (case ubjson_dump L (PDict d) of
            (bytes, r) \<Rightarrow> (r, w\<lparr>files := (files w)(output_file \<mapsto> bytes)\<rparr>)))"

definition before_write :: "lib \<Rightarrow> grid \<Rightarrow> world \<Rightarrow> (exn + dict) \<times> world" where
  \<comment> \<open>lines 19-87, with the grid constants as g: everything up to the \<^verbatim>\<open>with open\<close>;
      the result is the exception that ended the run, or the finished \<^verbatim>\<open>data\<close>\<close>
  "before_write L g w =
     (case import_ubjson L of
        Some e \<Rightarrow> (Inl e, w)
      | None \<Rightarrow>
         let w1 = w\<lparr>sys_path := path_join path ''tests/'' # path_join path ''build/'' # sys_path w\<rparr> in
         (case traverse L g w1 of
            (Some e, st) \<Rightarrow> (Inl e, env st)
          | (None, st) \<Rightarrow> (Inr (data st), env st)))"

definition dump_reference_json_on :: "lib \<Rightarrow> grid \<Rightarrow> world \<Rightarrow> exn option \<times> world" where
  \<comment> \<open>the body of \<^verbatim>\<open>dump_reference_json\<close>, lines 19-90, with the grid constants as g\<close>
  "dump_reference_json_on L g w =
     (case before_write L g w of
        (Inl e, w') \<Rightarrow> (Some e, w')
      | (Inr d, w') \<Rightarrow> write_output L d w')"

definition dump_reference_json :: "lib \<Rightarrow> world \<Rightarrow> exn option \<times> world" where
  "dump_reference_json L w = dump_reference_json_on L code_grid w"

definition main :: "lib \<Rightarrow> pyval \<Rightarrow> world \<Rightarrow> exn option \<times> world" where
  \<comment> \<open>lines 95-99\<close>
  "main L json_dump w = (if eq_True json_dump then dump_reference_json L w else (None, w))"

definition script :: "lib \<Rightarrow> bool \<Rightarrow> world \<Rightarrow> nat \<times> world" where
  \<comment> \<open>lines 104-108, from the value the \<^verbatim>\<open>store_true\<close> option \<^verbatim>\<open>-json_dump\<close> parsed to
      (False when the option is absent): the exit code is 0 when \<^verbatim>\<open>main\<close> returns and
      1 when an exception leaves it\<close>
  "script L flag w =
     (case main L (PBool flag) w of
        (None, w') \<Rightarrow> (0, w')
      | (Some e, w') \<Rightarrow> (1, w'))"

section \<open>Reading a run\<close>

definition events_of :: "world \<Rightarrow> world \<Rightarrow> event list" where
  \<comment> \<open>the events a run from w to w' added\<close>
  "events_of w w' = drop (length (trace w)) (trace w')"

definition constructor_calls :: "event list \<Rightarrow> dict list" where
  \<comment> \<open>the hyperparameters given to \<^verbatim>\<open>SphericalInvariant(**hypers)\<close>, in call order\<close>
  "constructor_calls evs =
     concat (map (\<lambda>e. case e of SphericalInvariant_called h \<Rightarrow> [h] | _ \<Rightarrow> []) evs)"

definition bundle_counts :: "dict \<Rightarrow> nat list" where
  \<comment> \<open>the number of bundles in each inner list of \<^verbatim>\<open>data['rep_info']\<close>\<close>
  "bundle_counts d =
     (case map_of d ''rep_info'' of
        Some (PList rows) \<Rightarrow> map (\<lambda>r. case r of PList bs \<Rightarrow> length bs | _ \<Rightarrow> 0) rows
      | _ \<Rightarrow> [])"

definition stored_bundles :: "dict \<Rightarrow> pyval list" where
  \<comment> \<open>the bundles in \<^verbatim>\<open>data['rep_info']\<close>, all inner lists in order\<close>
  "stored_bundles d =
     (case map_of d ''rep_info'' of
        Some (PList rows) \<Rightarrow> concat (map (\<lambda>r. case r of PList bs \<Rightarrow> bs | _ \<Rightarrow> []) rows)
      | _ \<Rightarrow> [])"

section \<open>A concrete library and concrete worlds\<close>

text \<open>
  A library in which every call succeeds: the descriptor keeps the hyperparameters it
  was built from, the kernel matrix is a fixed 1 x 1 matrix.
\<close>

definition lib0 :: lib where
  "lib0 = \<lparr>
     import_ubjson = None,
     parse_frames = (\<lambda>content index. Inr (PList [PStr content, PStr index])),
     SphericalInvariant = (\<lambda>h. Inr (PDict [(''hypers'', PDict h)])),
     soap_hypers = (\<lambda>soap. case soap of PDict [(k, h)] \<Rightarrow> h | _ \<Rightarrow> PNone),
     transform = (\<lambda>soap frames. Inr (PList [soap, frames])),
     Kernel = (\<lambda>soap h. Inr (PDict h)),
     kernel_call = (\<lambda>kern v. Inr (PList [PList [PFloat 1]])),
     tolist = (\<lambda>m. m),
     open_wb = (\<lambda>p. None),
     ubjson_dump = (\<lambda>v. (''{}'', None)) \<rparr>"

definition world0 :: world where
  \<comment> \<open>the input file is there, the output file is not\<close>
  "world0 = \<lparr> files = [fn \<mapsto> ''5 structures''], sys_path = [], trace = [] \<rparr>"

definition world_missing :: world where
  \<comment> \<open>no input file\<close>
  "world_missing = \<lparr> files = Map.empty, sys_path = [], trace = [] \<rparr>"

definition world_stale :: "string \<Rightarrow> world" where
  \<comment> \<open>the input file is there, and an output file of an earlier run with content c\<close>
  "world_stale c = \<lparr> files = [fn \<mapsto> ''5 structures'', output_file \<mapsto> c],
                     sys_path = [], trace = [] \<rparr>"

definition grid_Cosine :: grid where
  \<comment> \<open>the grid of the code with the kernel arguments filed under the kernel's name\<close>
  "grid_Cosine = code_grid\<lparr>dependant_args :=
       [(''Cosine'', [[(''zeta'', PInt 1)], [(''zeta'', PInt 2)], [(''zeta'', PInt 4)]])]\<rparr>"

definition grid_power_first :: grid where
  "grid_power_first = grid_Cosine\<lparr>soap_types := [''PowerSpectrum'', ''RadialSpectrum'']\<rparr>"

definition grid_no_cutoff :: grid where
  \<comment> \<open>a grid with no cutoff value: the loop at line 54 has nothing to walk\<close>
  "grid_no_cutoff = code_grid\<lparr>cutoffs := []\<rparr>"

definition locals0 :: locals where
  \<comment> \<open>the locals after line 56 of the first round\<close>
  "locals0 = \<lparr> env = world0,
                 data = setitem (init_data code_grid) ''rep_info'' (PList [PList []]),
                 max_angular = Some 0 \<rparr>"

section \<open>What every run keeps\<close>

text \<open>
  The call at lines 85-87 never returns: \<^verbatim>\<open>copy()\<close> has no argument. So the loop body
  always ends in an exception and leaves \<^verbatim>\<open>data\<close> as it was.
\<close>

lemma append_bundle_fst: "\<exists>e. fst (append_bundle L kk soap st) = Some e"
  by (simp add: append_bundle_def copy_def split: sum.splits)

lemma append_bundle_snd: "snd (append_bundle L kk soap st) = st"
  by (simp add: append_bundle_def copy_def split: sum.splits)

lemma loop_body_raises: "\<exists>e. fst (loop_body L fr c kn tt kw s gs mr st) = Some e"
  by (simp add: loop_body_def Let_def append_bundle_fst split: option.splits sum.splits)

lemma for_each_inv:
  assumes "P st" and "\<And>x s. x \<in> set xs \<Longrightarrow> P s \<Longrightarrow> P (snd (body x s))"
  shows "P (snd (for_each xs body st))"
  using assms
proof (induction xs arbitrary: st)
  case Nil
  then show ?case by simp
next
  case (Cons x xs)
  have step: "P (snd (body x st))" using Cons.prems by simp
  show ?case
  proof (cases "body x st")
    case (Pair r st')
    with step have p': "P st'" by simp
    show ?thesis
    proof (cases r)
      case None
      with Pair show ?thesis using Cons.IH [OF p'] Cons.prems(2) by simp
    next
      case (Some e)
      with Pair p' show ?thesis by simp
    qed
  qed
qed


lemma iteration_data: "data (snd (iteration L fr c kn tt kw s gs mr a st)) = data st"
  by (simp add: iteration_def loop_body_def Let_def emit_def append_bundle_snd
           split: option.splits sum.splits)

lemma iteration_files: "files (env (snd (iteration L fr c kn tt kw s gs mr a st))) = files (env st)"
  by (simp add: iteration_def loop_body_def Let_def emit_def append_bundle_snd
           split: option.splits sum.splits)

lemma iteration_sys_path:
  "sys_path (env (snd (iteration L fr c kn tt kw s gs mr a st))) = sys_path (env st)"
  by (simp add: iteration_def loop_body_def Let_def emit_def append_bundle_snd
           split: option.splits sum.splits)

lemma iteration_trace:
  "\<exists>evs. trace (env (snd (iteration L fr c kn tt kw s gs mr a st))) =
            trace (env st) @
              SphericalInvariant_called
                (hypers_of c mr (if ''RadialSpectrum'' = s then 0 else a) gs s) # evs
         \<and> constructor_calls evs = []"
  by (simp add: iteration_def loop_body_def Let_def emit_def append_bundle_snd
                constructor_calls_def
           split: option.splits sum.splits)

lemma grid_loop_inv:
  assumes init: "P st"
    and pr: "\<And>c s. P s \<Longrightarrow> P (emit (Print [PStr fn, PFloat c]) s)"
    and row: "\<And>s d. P s \<Longrightarrow> new_row (data s) = Inr d \<Longrightarrow> P (s\<lparr>data := d\<rparr>)"
    and it: "\<And>c kn tt kw so gs mr a s. a \<in> set (max_angulars g) \<Longrightarrow> P s
               \<Longrightarrow> P (snd (iteration L fr c kn tt kw so gs mr a s))"
  shows "P (snd (grid_loop L g fr st))"
proof -
  have l8: "P (snd (for_each (max_angulars g) (iteration L fr c kn tt kw so gs mr) s))"
    if "P s" for c kn tt kw so gs mr s
    using that by (rule for_each_inv) (rule it)
  have l7: "P (snd (for_each (max_radials g) (\<lambda>mr.
              for_each (max_angulars g) (iteration L fr c kn tt kw so gs mr)) s))"
    if "P s" for c kn tt kw so gs s
    using that by (rule for_each_inv) (rule l8)
  have l6: "P (snd (for_each (gaussian_sigmas g) (\<lambda>gs. for_each (max_radials g) (\<lambda>mr.
              for_each (max_angulars g) (iteration L fr c kn tt kw so gs mr))) s))"
    if "P s" for c kn tt kw so s
    using that by (rule for_each_inv) (rule l7)
  have l5: "P (snd (for_each (soap_types g) (\<lambda>so. for_each (gaussian_sigmas g) (\<lambda>gs.
              for_each (max_radials g) (\<lambda>mr.
              for_each (max_angulars g) (iteration L fr c kn tt kw so gs mr)))) s))"
    if "P s" for c kn tt kw s
    using that by (rule for_each_inv) (rule l6)
  have l4: "P (snd (for_each kws (\<lambda>kw. for_each (soap_types g) (\<lambda>so.
              for_each (gaussian_sigmas g) (\<lambda>gs. for_each (max_radials g) (\<lambda>mr.
              for_each (max_angulars g) (iteration L fr c kn tt kw so gs mr))))) s))"
    if "P s" for c kn tt kws s
    using that by (rule for_each_inv) (rule l5)
  have l3: "P (snd (for_each (target_types g) (\<lambda>tt st.
              case getitem (dependant_args g) kn of Inl e \<Rightarrow> (Some e, st) | Inr kws \<Rightarrow>
              for_each kws (\<lambda>kw. for_each (soap_types g) (\<lambda>so.
              for_each (gaussian_sigmas g) (\<lambda>gs. for_each (max_radials g) (\<lambda>mr.
              for_each (max_angulars g) (iteration L fr c kn tt kw so gs mr))))) st) s))"
    if "P s" for c kn s
    using that by (rule for_each_inv) (simp add: l4 split: sum.splits)
  have l2: "P (snd (for_each (kernel_names g) (\<lambda>kn. for_each (target_types g) (\<lambda>tt st.
              case getitem (dependant_args g) kn of Inl e \<Rightarrow> (Some e, st) | Inr kws \<Rightarrow>
              for_each kws (\<lambda>kw. for_each (soap_types g) (\<lambda>so.
              for_each (gaussian_sigmas g) (\<lambda>gs. for_each (max_radials g) (\<lambda>mr.
              for_each (max_angulars g) (iteration L fr c kn tt kw so gs mr))))) st)) s))"
    if "P s" for c s
    using that by (rule for_each_inv) (rule l3)
  show ?thesis
    unfolding grid_loop_def
    using init
    by (rule for_each_inv) (simp add: Let_def pr row l2 split: sum.splits)
qed

lemma grid_loop_files: "files (env (snd (grid_loop L g fr st))) = files (env st)"
  by (rule grid_loop_inv [where P = "\<lambda>s. files (env s) = files (env st)"])
     (simp_all add: emit_def iteration_files)

lemma grid_loop_sys_path: "sys_path (env (snd (grid_loop L g fr st))) = sys_path (env st)"
  by (rule grid_loop_inv [where P = "\<lambda>s. sys_path (env s) = sys_path (env st)"])
     (simp_all add: emit_def iteration_sys_path)

lemma grid_loop_trace:
  "\<exists>evs. trace (env (snd (grid_loop L g fr st))) = trace (env st) @ evs
      \<and> (\<forall>h \<in> set (constructor_calls evs). \<exists>c mr a gs s. a \<in> set (max_angulars g)
            \<and> h = hypers_of c mr (if ''RadialSpectrum'' = s then 0 else a) gs s)"
proof -
  define good where "good h \<longleftrightarrow> (\<exists>c mr a gs s. a \<in> set (max_angulars g)
            \<and> h = hypers_of c mr (if ''RadialSpectrum'' = s then 0 else a) gs s)" for h
  let ?P = "\<lambda>s'::locals. \<exists>evs. trace (env s') = trace (env st) @ evs
              \<and> (\<forall>h \<in> set (constructor_calls evs). good h)"
  have "?P (snd (grid_loop L g fr st))"
  proof (rule grid_loop_inv [where P = ?P])
    show "?P st"
      by (simp add: constructor_calls_def)
  next
    fix c and s :: locals
    assume "?P s"
    then obtain evs where e: "trace (env s) = trace (env st) @ evs"
      and h: "\<forall>h \<in> set (constructor_calls evs). good h"
      by blast
    have "trace (env (emit (Print [PStr fn, PFloat c]) s))
            = trace (env st) @ (evs @ [Print [PStr fn, PFloat c]])"
      by (simp add: emit_def e)
    moreover have "constructor_calls (evs @ [Print [PStr fn, PFloat c]]) = constructor_calls evs"
      by (simp add: constructor_calls_def)
    ultimately show "?P (emit (Print [PStr fn, PFloat c]) s)"
      using h by metis
  next
    fix s :: locals and d
    assume "?P s"
    then show "?P (s\<lparr>data := d\<rparr>)"
      by simp
  next
    fix c kn tt kw so gs mr a and s :: locals
    assume a: "a \<in> set (max_angulars g)" and "?P s"
    then obtain evs where e: "trace (env s) = trace (env st) @ evs"
      and h: "\<forall>h \<in> set (constructor_calls evs). good h"
      by blast
    obtain evs' where e': "trace (env (snd (iteration L fr c kn tt kw so gs mr a s))) =
              trace (env s) @
                SphericalInvariant_called
                  (hypers_of c mr (if ''RadialSpectrum'' = so then 0 else a) gs so) # evs'"
      and c': "constructor_calls evs' = []"
      using iteration_trace by blast
    let ?h = "hypers_of c mr (if ''RadialSpectrum'' = so then 0 else a) gs so"
    let ?new = "evs @ SphericalInvariant_called ?h # evs'"
    have t: "trace (env (snd (iteration L fr c kn tt kw so gs mr a s))) = trace (env st) @ ?new"
      by (simp add: e e')
    have cc: "constructor_calls ?new = constructor_calls evs @ [?h]"
      using c' by (simp add: constructor_calls_def)
    have "good ?h"
      unfolding good_def using a by blast
    with h have "\<forall>h \<in> set (constructor_calls ?new). good h"
      unfolding cc by simp
    with t show "?P (snd (iteration L fr c kn tt kw so gs mr a s))"
      by blast
  qed
  then show ?thesis
    unfolding good_def .
qed

lemma traverse_files: "files (env (snd (traverse L g w))) = files w"
  by (simp add: traverse_def Let_def grid_loop_files split: sum.splits)

lemma traverse_sys_path: "sys_path (env (snd (traverse L g w))) = sys_path w"
  by (simp add: traverse_def Let_def grid_loop_sys_path split: sum.splits)

lemma traverse_trace:
  "\<exists>evs. trace (env (snd (traverse L g w))) = trace w @ evs
      \<and> (\<forall>h \<in> set (constructor_calls evs). \<exists>c mr a gs s. a \<in> set (max_angulars g)
            \<and> h = hypers_of c mr (if ''RadialSpectrum'' = s then 0 else a) gs s)"
proof (cases "read L w fn (format_slice start (start + length_c))")
  case (Inl e)
  then show ?thesis
    by (simp add: traverse_def constructor_calls_def)
next
  case (Inr fr)
  then show ?thesis
    using grid_loop_trace [of L g fr "\<lparr>env = w, data = init_data g, max_angular = None\<rparr>"]
    by (simp add: traverse_def)
qed

lemma before_write_world:
  "snd (before_write L g w) =
     (case import_ubjson L of
        Some e \<Rightarrow> w
      | None \<Rightarrow> env (snd (traverse L g
          (w\<lparr>sys_path := path_join path ''tests/'' # path_join path ''build/'' # sys_path w\<rparr>))))"
proof (cases "import_ubjson L")
  case (Some e)
  then show ?thesis by (simp add: before_write_def)
next
  case None
  let ?w1 = "w\<lparr>sys_path := path_join path ''tests/'' # path_join path ''build/'' # sys_path w\<rparr>"
  obtain r st where t: "traverse L g ?w1 = (r, st)"
    by (cases "traverse L g ?w1")
  show ?thesis
    using None t by (cases r) (simp_all add: before_write_def Let_def)
qed

lemma before_write_files: "files (snd (before_write L g w)) = files w"
  by (simp add: before_write_world traverse_files split: option.splits)

lemma write_output_trace: "trace (snd (write_output L d w)) = trace w"
  by (simp add: write_output_def split: option.splits prod.splits)

lemma before_write_trace:
  "\<exists>evs. trace (snd (before_write L g w)) = trace w @ evs
      \<and> (\<forall>h \<in> set (constructor_calls evs). \<exists>c mr a gs s. a \<in> set (max_angulars g)
            \<and> h = hypers_of c mr (if ''RadialSpectrum'' = s then 0 else a) gs s)"
proof (cases "import_ubjson L")
  case (Some e)
  then show ?thesis
    by (simp add: before_write_world constructor_calls_def)
next
  case None
  let ?w1 = "w\<lparr>sys_path := path_join path ''tests/'' # path_join path ''build/'' # sys_path w\<rparr>"
  have "snd (before_write L g w) = env (snd (traverse L g ?w1))"
    using None by (simp add: before_write_world)
  then show ?thesis
    using traverse_trace [of L g ?w1] by simp
qed

lemma run_trace:
  "\<exists>evs. trace (snd (dump_reference_json_on L g w)) = trace w @ evs
      \<and> (\<forall>h \<in> set (constructor_calls evs). \<exists>c mr a gs s. a \<in> set (max_angulars g)
            \<and> h = hypers_of c mr (if ''RadialSpectrum'' = s then 0 else a) gs s)"
proof -
  have "trace (snd (dump_reference_json_on L g w)) = trace (snd (before_write L g w))"
    by (simp add: dump_reference_json_on_def write_output_trace split: prod.splits sum.splits)
  then show ?thesis
    using before_write_trace [of L g w] by simp
qed

lemma run_calls:
  assumes "h \<in> set (constructor_calls (events_of w (snd (dump_reference_json_on L g w))))"
  shows "\<exists>c mr a gs s. a \<in> set (max_angulars g)
            \<and> h = hypers_of c mr (if ''RadialSpectrum'' = s then 0 else a) gs s"
proof -
  obtain evs where t: "trace (snd (dump_reference_json_on L g w)) = trace w @ evs"
    and ok: "\<forall>h \<in> set (constructor_calls evs). \<exists>c mr a gs s. a \<in> set (max_angulars g)
            \<and> h = hypers_of c mr (if ''RadialSpectrum'' = s then 0 else a) gs s"
    using run_trace by blast
  have "events_of w (snd (dump_reference_json_on L g w)) = evs"
    by (simp add: events_of_def t)
  with assms ok show ?thesis by blast
qed

lemma iteration_calls:
  "constructor_calls (events_of (env st) (env (snd (iteration L fr c kn tt kw s gs mr a st))))
     = [hypers_of c mr (if ''RadialSpectrum'' = s then 0 else a) gs s]"
proof -
  obtain evs where "trace (env (snd (iteration L fr c kn tt kw s gs mr a st))) =
            trace (env st) @
              SphericalInvariant_called
                (hypers_of c mr (if ''RadialSpectrum'' = s then 0 else a) gs s) # evs"
    and "constructor_calls evs = []"
    using iteration_trace by blast
  then show ?thesis
    by (simp add: events_of_def constructor_calls_def)
qed

text \<open>
  The keys of \<^verbatim>\<open>data\<close> and every value but the one under \<^verbatim>\<open>rep_info\<close> stay as
  line 41 set them; \<^verbatim>\<open>rep_info\<close> only ever gains empty inner lists.
\<close>

lemma map_of_setitem: "map_of (setitem d k v) k' = (if k' = k then Some v else map_of d k')"
  by (induction d) auto

lemma keys_setitem: "map_of d k = Some u \<Longrightarrow> map fst (setitem d k v) = map fst d"
  by (induction d) (auto split: if_splits)

lemma new_row_keys: "new_row d = Inr d' \<Longrightarrow> map fst d' = map fst d"
  by (auto simp: new_row_def getitem_def getattr_append_def call_append_def keys_setitem
           split: option.splits pyval.splits sum.splits)

lemma new_row_other: "new_row d = Inr d' \<Longrightarrow> k \<noteq> ''rep_info'' \<Longrightarrow> map_of d' k = map_of d k"
  by (auto simp: new_row_def getitem_def getattr_append_def call_append_def map_of_setitem
           split: option.splits pyval.splits sum.splits)

lemma new_row_counts: "new_row d = Inr d' \<Longrightarrow> bundle_counts d' = bundle_counts d @ [0]"
  by (auto simp: new_row_def getitem_def getattr_append_def call_append_def map_of_setitem
                 bundle_counts_def
           split: option.splits pyval.splits sum.splits)

lemma grid_loop_data:
  "map fst (data (snd (grid_loop L g fr st))) = map fst (data st)
   \<and> (\<forall>k. k \<noteq> ''rep_info'' \<longrightarrow> map_of (data (snd (grid_loop L g fr st))) k = map_of (data st) k)"
  by (rule grid_loop_inv [where P = "\<lambda>s. map fst (data s) = map fst (data st)
        \<and> (\<forall>k. k \<noteq> ''rep_info'' \<longrightarrow> map_of (data s) k = map_of (data st) k)"])
     (simp_all add: emit_def iteration_data new_row_keys new_row_other)

lemma grid_loop_counts:
  "set (bundle_counts (data st)) \<subseteq> {0}
     \<Longrightarrow> set (bundle_counts (data (snd (grid_loop L g fr st)))) \<subseteq> {0}"
  by (rule grid_loop_inv [where P = "\<lambda>s. set (bundle_counts (data s)) \<subseteq> {0}"])
     (simp_all add: emit_def iteration_data new_row_counts)

lemma traverse_data:
  "map fst (data (snd (traverse L g w))) = map fst (init_data g)
   \<and> (\<forall>k. k \<noteq> ''rep_info'' \<longrightarrow> map_of (data (snd (traverse L g w))) k = map_of (init_data g) k)"
proof (cases "read L w fn (format_slice start (start + length_c))")
  case (Inl e)
  then show ?thesis by (simp add: traverse_def)
next
  case (Inr fr)
  then show ?thesis
    using grid_loop_data [where st = "\<lparr>env = w, data = init_data g, max_angular = None\<rparr>"
        and L = L and g = g and fr = fr]
    by (simp add: traverse_def)
qed

lemma no_bundle_is_ever_stored: "set (bundle_counts (data (snd (traverse L g w)))) \<subseteq> {0}"
proof -
  let ?st = "\<lparr>env = w, data = init_data g, max_angular = None\<rparr>"
  have i: "set (bundle_counts (data ?st)) \<subseteq> {0}"
    by (simp add: bundle_counts_def init_data_def)
  show ?thesis
  proof (cases "read L w fn (format_slice start (start + length_c))")
    case (Inl e)
    with i show ?thesis by (simp add: traverse_def)
  next
    case (Inr fr)
    with grid_loop_counts [OF i, of L g fr] show ?thesis by (simp add: traverse_def)
  qed
qed

lemma new_row_stored: "new_row d = Inr d' \<Longrightarrow> stored_bundles d' = stored_bundles d"
  by (auto simp: new_row_def getitem_def getattr_append_def call_append_def map_of_setitem
                 stored_bundles_def
           split: option.splits pyval.splits sum.splits)

lemma grid_loop_stored:
  "stored_bundles (data st) = []
     \<Longrightarrow> stored_bundles (data (snd (grid_loop L g fr st))) = []"
  by (rule grid_loop_inv [where P = "\<lambda>s. stored_bundles (data s) = []"])
     (simp_all add: emit_def iteration_data new_row_stored)

lemma no_stored_bundle: "stored_bundles (data (snd (traverse L g w))) = []"
proof -
  let ?st = "\<lparr>env = w, data = init_data g, max_angular = None\<rparr>"
  have i: "stored_bundles (data ?st) = []"
    by (simp add: stored_bundles_def init_data_def)
  show ?thesis
  proof (cases "read L w fn (format_slice start (start + length_c))")
    case (Inl e)
    with i show ?thesis by (simp add: traverse_def)
  next
    case (Inr fr)
    with grid_loop_stored [OF i, of L g fr] show ?thesis by (simp add: traverse_def)
  qed
qed

lemma before_write_data:
  "before_write L g w = (Inr d, w') \<Longrightarrow>
     d = data (snd (traverse L g
           (w\<lparr>sys_path := path_join path ''tests/'' # path_join path ''build/'' # sys_path w\<rparr>)))"
  by (auto simp: before_write_def Let_def split: option.splits prod.splits)

section \<open>Runs of the concrete library\<close>

lemmas run_defs = dump_reference_json_def dump_reference_json_on_def before_write_def
  traverse_def read_def grid_loop_def iteration_def loop_body_def append_bundle_def
  write_output_def new_row_def emit_def getitem_def getattr_append_def call_append_def
  index_last_def copy_def update_kw_def init_data_def py_dependant_args_def
  events_of_def constructor_calls_def bundle_counts_def stored_bundles_def

lemmas const_defs = fn_def fn_to_write_def path_def path_join_def output_file_def
  start_def length_c_def

lemmas example_defs = lib0_def world0_def world_missing_def world_stale_def code_grid_def
  grid_Cosine_def grid_power_first_def grid_no_cutoff_def locals0_def

lemma run_code_grid:
  "dump_reference_json lib0 world0 =
     (Some (KeyError ''Cosine''),
      world0\<lparr>sys_path := [''../tests/'', ''../build/''],
             trace := [Print [PStr fn, PFloat 3.5]]\<rparr>)"
  by (simp add: run_defs const_defs example_defs)

lemma calls_grid_Cosine:
  "constructor_calls (events_of world0 (snd (dump_reference_json_on lib0 grid_Cosine world0)))
     = [hypers_of 3.5 6 0 0.5 ''RadialSpectrum'']"
  by (simp add: run_defs const_defs example_defs hypers_of_def)

lemma calls_grid_power_first:
  "constructor_calls (events_of world0 (snd (dump_reference_json_on lib0 grid_power_first world0)))
     = [hypers_of 3.5 6 6 0.5 ''PowerSpectrum'']"
  by (simp add: run_defs const_defs example_defs hypers_of_def)

lemma dump_reference_json_raises: "\<exists>e. fst (dump_reference_json L w) = Some e"
  by (simp add: run_defs code_grid_def Let_def split: option.splits sum.splits)

lemma before_write_missing:
  "before_write lib0 code_grid world_missing =
     (Inl (FileNotFoundError fn), world_missing\<lparr>sys_path := [''../tests/'', ''../build/'']\<rparr>)"
  by (simp add: run_defs const_defs example_defs)

lemma before_write_code_grid:
  "before_write lib0 code_grid world0 =
     (Inl (KeyError ''Cosine''),
      world0\<lparr>sys_path := [''../tests/'', ''../build/''],
             trace := [Print [PStr fn, PFloat 3.5]]\<rparr>)"
  by (simp add: run_defs const_defs example_defs)

lemma run_grid_no_cutoff:
  "before_write lib0 grid_no_cutoff world0 =
     (Inr (init_data grid_no_cutoff), world0\<lparr>sys_path := [''../tests/'', ''../build/'']\<rparr>)"
  by (simp add: run_defs const_defs example_defs)

section \<open>The result bundles\<close>

text \<open>
  Claim C1. Each combination should append a bundle with the kernel matrix, the
  descriptor's hyperparameters and the kernel's hyperparameters. The call at lines 85-87
  does not: with a matrix and a descriptor in hand and an inner list to append to, it
  builds a dictionary of two keys, then evaluates \<^verbatim>\<open>copy()\<close> and raises TypeError, the
  locals unchanged. On the grid whose kernel arguments are filed under "Cosine" the
  traversal ends there with an empty inner list, and on the grid of the code it ends
  earlier, with an empty inner list as well.
\<close>

theorem append_raises_before_storing:
  "append_bundle lib0 (PList [PList [PFloat 1]])
       (PDict [(''hypers'', PDict (hypers_of 3.5 6 0 0.5 ''RadialSpectrum''))]) locals0
     = (Some (TypeError ''copy() takes exactly 1 positional argument''), locals0)
   \<and> fst (traverse lib0 grid_Cosine world0)
     = Some (TypeError ''copy() takes exactly 1 positional argument'')
   \<and> map_of (data (snd (traverse lib0 grid_Cosine world0))) ''rep_info'' = Some (PList [PList []])
   \<and> map_of (data (snd (traverse lib0 code_grid world0))) ''rep_info'' = Some (PList [PList []])"
  by (simp add: run_defs const_defs example_defs hypers_of_def)

section \<open>The radial-spectrum override\<close>

text \<open>
  The override of lines 64-65 does its part. Whatever the library, the grid and the world:
  every hyperparameter dictionary that a run hands to the descriptor constructor with
  \<^verbatim>\<open>soap_type\<close> "RadialSpectrum" has \<^verbatim>\<open>max_angular\<close> 0, whatever values the grid
  lists for the angular axis.
\<close>

lemma constructor_gets_max_angular_zero:
  "\<forall>h \<in> set (constructor_calls (events_of w (snd (dump_reference_json_on L g w)))).
     map_of h ''soap_type'' = Some (PStr ''RadialSpectrum'')
       \<longrightarrow> map_of h ''max_angular'' = Some (PInt 0)"
proof (intro ballI impI)
  fix h
  assume "h \<in> set (constructor_calls (events_of w (snd (dump_reference_json_on L g w))))"
    and r: "map_of h ''soap_type'' = Some (PStr ''RadialSpectrum'')"
  then obtain c mr a gs s where
    h: "h = hypers_of c mr (if ''RadialSpectrum'' = s then 0 else a) gs s"
    using run_calls by blast
  from r have "s = ''RadialSpectrum''"
    unfolding h by (simp add: hypers_of_def)
  then show "map_of h ''max_angular'' = Some (PInt 0)"
    unfolding h by (simp add: hypers_of_def)
qed

lemma constructor_gets_max_angular_zero_example:
  "hypers_of 3.5 6 0 0.5 ''RadialSpectrum''
     \<in> set (constructor_calls (events_of world0 (snd (dump_reference_json_on lib0 grid_Cosine world0))))
   \<and> max_angulars grid_Cosine = [6]
   \<and> map_of (hypers_of 3.5 6 0 0.5 ''RadialSpectrum'') ''soap_type'' = Some (PStr ''RadialSpectrum'')
   \<and> map_of (hypers_of 3.5 6 0 0.5 ''RadialSpectrum'') ''max_angular'' = Some (PInt 0)"
proof -
  let ?h = "hypers_of 3.5 6 0 0.5 ''RadialSpectrum''"
  have m: "?h \<in> set (constructor_calls
             (events_of world0 (snd (dump_reference_json_on lib0 grid_Cosine world0))))"
    by (simp add: calls_grid_Cosine)
  have s: "map_of ?h ''soap_type'' = Some (PStr ''RadialSpectrum'')"
    by (simp add: hypers_of_def)
  have "map_of ?h ''max_angular'' = Some (PInt 0)"
    using constructor_gets_max_angular_zero [where w = world0 and L = lib0 and g = grid_Cosine] m s
    by blast
  with m s show ?thesis
    by (simp add: grid_Cosine_def code_grid_def)
qed


section \<open>The size of the result record\<close>

text \<open>
  Claim C3. For the grid of the code each inner list of \<^verbatim>\<open>rep_info\<close> should hold 12
  bundles after a run. With every library call succeeding, the run ends at line 59 with
  KeyError "Cosine" (the kernel arguments are filed under "cosine"), after one line
  printed; \<^verbatim>\<open>rep_info\<close> then holds one inner list with 0 bundles.
\<close>

theorem code_grid_run_stores_no_bundle:
  "dump_reference_json lib0 world0 =
     (Some (KeyError ''Cosine''),
      world0\<lparr>sys_path := [''../tests/'', ''../build/''],
             trace := [Print [PStr fn, PFloat 3.5]]\<rparr>)
   \<and> bundle_counts (data (snd (traverse lib0 code_grid world0))) = [0]"
  by (simp add: run_defs const_defs example_defs)

section \<open>Failure before the write\<close>

text \<open>
  Claim C4. The file system changes at lines 89-90 only. A run that raises before them
  ends with that exception and with every file as it was, so with no output file if
  there was none; a missing input file is such a run, ended by the read at line 53.
\<close>

theorem no_output_file_when_run_fails_before_write:
  "(before_write L g w = (Inl e, w')
      \<longrightarrow> dump_reference_json_on L g w = (Some e, w') \<and> files w' = files w)
   \<and> (import_ubjson L = None \<and> files w fn = None
      \<longrightarrow> fst (dump_reference_json L w) = Some (FileNotFoundError fn)
          \<and> files (snd (dump_reference_json L w)) = files w)"
proof (intro conjI impI)
  assume b: "before_write L g w = (Inl e, w')"
  then show "dump_reference_json_on L g w = (Some e, w')"
    by (simp add: dump_reference_json_on_def)
  from b have "w' = snd (before_write L g w)" by simp
  then show "files w' = files w"
    by (simp add: before_write_files)
next
  assume a: "import_ubjson L = None \<and> files w fn = None"
  then have b: "before_write L code_grid w =
      (Inl (FileNotFoundError fn),
       w\<lparr>sys_path := path_join path ''tests/'' # path_join path ''build/'' # sys_path w\<rparr>)"
    by (simp add: before_write_def traverse_def read_def Let_def)
  then show "fst (dump_reference_json L w) = Some (FileNotFoundError fn)"
    by (simp add: dump_reference_json_def dump_reference_json_on_def)
  from b show "files (snd (dump_reference_json L w)) = files w"
    by (simp add: dump_reference_json_def dump_reference_json_on_def)
qed

theorem no_output_file_when_run_fails_before_write_witness:
  "import_ubjson lib0 = None \<and> files world_missing fn = None
   \<and> fst (dump_reference_json lib0 world_missing) = Some (FileNotFoundError fn)
   \<and> files (snd (dump_reference_json lib0 world_missing)) output_file = None
   \<and> fst (before_write lib0 code_grid world0) = Inl (KeyError ''Cosine'')
   \<and> fst (dump_reference_json_on lib0 code_grid world0) = Some (KeyError ''Cosine'')
   \<and> files (snd (dump_reference_json_on lib0 code_grid world0)) output_file = None"
proof -
  let ?w' = "world0\<lparr>sys_path := [''../tests/'', ''../build/''],
                    trace := [Print [PStr fn, PFloat 3.5]]\<rparr>"
  note missing = no_output_file_when_run_fails_before_write [where L = lib0 and w = world_missing]
  note mid_loop = no_output_file_when_run_fails_before_write [where L = lib0 and g = code_grid
      and w = world0 and e = "KeyError ''Cosine''" and w' = ?w']
  have i: "import_ubjson lib0 = None" by (simp add: lib0_def)
  have f: "files world_missing fn = None" by (simp add: world_missing_def)
  from missing i f have m1: "fst (dump_reference_json lib0 world_missing) = Some (FileNotFoundError fn)"
    and m2: "files (snd (dump_reference_json lib0 world_missing)) = files world_missing"
    by blast+
  from m2 have m3: "files (snd (dump_reference_json lib0 world_missing)) output_file = None"
    by (simp add: world_missing_def)
  from mid_loop before_write_code_grid
  have k1: "dump_reference_json_on lib0 code_grid world0 = (Some (KeyError ''Cosine''), ?w')"
    and k2: "files ?w' = files world0"
    by blast+
  have k3: "files (snd (dump_reference_json_on lib0 code_grid world0)) output_file = None"
    unfolding k1 by (simp add: world0_def const_defs)
  from i f m1 m3 k1 k3 before_write_code_grid show ?thesis
    by simp
qed

section \<open>Two runs\<close>

text \<open>
  Claim C5. Two runs on the same input file should leave the same bytes in the output
  file. The runs below read the same input file; each ends before line 89, so an output
  file left by an earlier run stays as it was, different in the two worlds, and where
  there was none there is none.
\<close>

theorem runs_leave_output_file_as_it_was:
  "files (world_stale ''a'') fn = files (world_stale ''b'') fn
   \<and> files (snd (dump_reference_json lib0 (world_stale ''a''))) output_file = Some ''a''
   \<and> files (snd (dump_reference_json lib0 (world_stale ''b''))) output_file = Some ''b''
   \<and> files (snd (dump_reference_json lib0 world0)) output_file = None"
  by (simp add: run_defs const_defs example_defs)

section \<open>The record that is serialized\<close>

text \<open>
  Claim C6, as stated, asks that the record hold the input and the output file names and
  the grid values. In the run of the grid of the code, no value of \<^verbatim>\<open>data\<close> is the
  input path \<^verbatim>\<open>fn\<close> or the path opened at line 89, and no key is \<^verbatim>\<open>max_angulars\<close>.
\<close>

theorem data_record_lacks_input_file_counterexample:
  "PStr fn \<notin> set (map snd (data (snd (traverse lib0 code_grid world0))))
   \<and> PStr output_file \<notin> set (map snd (data (snd (traverse lib0 code_grid world0))))
   \<and> ''max_angulars'' \<notin> set (map fst (data (snd (traverse lib0 code_grid world0))))"
  by (simp add: run_defs const_defs example_defs)

text \<open>
  Claim C6, amended. Whatever the library, the grid and the world, \<^verbatim>\<open>data\<close> has exactly
  the eleven keys below, in this order; \<^verbatim>\<open>filename\<close> holds the constant
  \<^verbatim>\<open>fn_to_write\<close>, \<^verbatim>\<open>start\<close> and \<^verbatim>\<open>length\<close> hold 0 and 5, and the keys of the seven
  stored grid axes hold the grid's values. When the traversal completes, the record handed
  to the serializer is this one.
\<close>

theorem data_record_keys_and_values:
  "(let d = data (snd (traverse L g w)) in
      map fst d = [''filename'', ''start'', ''length'', ''cutoffs'', ''gaussian_sigmas'',
                   ''max_radials'', ''soap_types'', ''kernel_names'', ''target_types'',
                   ''dependant_args'', ''rep_info'']
    \<and> map_of d ''filename'' = Some (PStr ''../reference_data/dft-smiles_500.ubjson'')
    \<and> map_of d ''start'' = Some (PInt 0)
    \<and> map_of d ''length'' = Some (PInt 5)
    \<and> map_of d ''cutoffs'' = Some (PList (map PFloat (cutoffs g)))
    \<and> map_of d ''gaussian_sigmas'' = Some (PList (map PFloat (gaussian_sigmas g)))
    \<and> map_of d ''max_radials'' = Some (PList (map PInt (max_radials g)))
    \<and> map_of d ''soap_types'' = Some (PList (map PStr (soap_types g)))
    \<and> map_of d ''kernel_names'' = Some (PList (map PStr (kernel_names g)))
    \<and> map_of d ''target_types'' = Some (PList (map PStr (target_types g)))
    \<and> map_of d ''dependant_args'' = Some (py_dependant_args (dependant_args g)))
   \<and> (before_write L g w = (Inr d', w')
        \<longrightarrow> write_output L d' w' = dump_reference_json_on L g w
          \<and> map fst d' = [''filename'', ''start'', ''length'', ''cutoffs'', ''gaussian_sigmas'',
                   ''max_radials'', ''soap_types'', ''kernel_names'', ''target_types'',
                   ''dependant_args'', ''rep_info''])"
proof (intro conjI impI)
  show "let d = data (snd (traverse L g w)) in
      map fst d = [''filename'', ''start'', ''length'', ''cutoffs'', ''gaussian_sigmas'',
                   ''max_radials'', ''soap_types'', ''kernel_names'', ''target_types'',
                   ''dependant_args'', ''rep_info'']
    \<and> map_of d ''filename'' = Some (PStr ''../reference_data/dft-smiles_500.ubjson'')
    \<and> map_of d ''start'' = Some (PInt 0)
    \<and> map_of d ''length'' = Some (PInt 5)
    \<and> map_of d ''cutoffs'' = Some (PList (map PFloat (cutoffs g)))
    \<and> map_of d ''gaussian_sigmas'' = Some (PList (map PFloat (gaussian_sigmas g)))
    \<and> map_of d ''max_radials'' = Some (PList (map PInt (max_radials g)))
    \<and> map_of d ''soap_types'' = Some (PList (map PStr (soap_types g)))
    \<and> map_of d ''kernel_names'' = Some (PList (map PStr (kernel_names g)))
    \<and> map_of d ''target_types'' = Some (PList (map PStr (target_types g)))
    \<and> map_of d ''dependant_args'' = Some (py_dependant_args (dependant_args g))"
    by (simp add: Let_def traverse_data) (simp add: init_data_def const_defs)
next
  assume b: "before_write L g w = (Inr d', w')"
  then show "write_output L d' w' = dump_reference_json_on L g w"
    by (simp add: dump_reference_json_on_def)
  from before_write_data [OF b] show "map fst d' = [''filename'', ''start'', ''length'',
      ''cutoffs'', ''gaussian_sigmas'', ''max_radials'', ''soap_types'', ''kernel_names'',
      ''target_types'', ''dependant_args'', ''rep_info'']"
    by (simp add: traverse_data) (simp add: init_data_def)
qed

theorem data_record_keys_and_values_witness:
  "before_write lib0 grid_no_cutoff world0 =
     (Inr (init_data grid_no_cutoff), world0\<lparr>sys_path := [''../tests/'', ''../build/'']\<rparr>)
   \<and> map fst (init_data grid_no_cutoff) = [''filename'', ''start'', ''length'', ''cutoffs'',
        ''gaussian_sigmas'', ''max_radials'', ''soap_types'', ''kernel_names'', ''target_types'',
        ''dependant_args'', ''rep_info'']
   \<and> files (snd (dump_reference_json_on lib0 grid_no_cutoff world0)) output_file = Some ''{}''
   \<and> map_of (data (snd (traverse lib0 code_grid world0))) ''cutoffs'' = Some (PList [PFloat 3.5])"
proof -
  note inst = data_record_keys_and_values [where L = lib0 and g = grid_no_cutoff and w = world0
      and d' = "init_data grid_no_cutoff"
      and w' = "world0\<lparr>sys_path := [''../tests/'', ''../build/'']\<rparr>"]
  from inst run_grid_no_cutoff
  have k: "map fst (init_data grid_no_cutoff) = [''filename'', ''start'', ''length'', ''cutoffs'',
        ''gaussian_sigmas'', ''max_radials'', ''soap_types'', ''kernel_names'', ''target_types'',
        ''dependant_args'', ''rep_info'']"
    and w: "write_output lib0 (init_data grid_no_cutoff)
              (world0\<lparr>sys_path := [''../tests/'', ''../build/'']\<rparr>)
            = dump_reference_json_on lib0 grid_no_cutoff world0"
    by blast+
  have f: "files (snd (dump_reference_json_on lib0 grid_no_cutoff world0)) output_file = Some ''{}''"
    unfolding w [symmetric] by (simp add: write_output_def lib0_def)
  have c: "map_of (data (snd (traverse lib0 code_grid world0))) ''cutoffs'' = Some (PList [PFloat 3.5])"
    using data_record_keys_and_values [where L = lib0 and g = code_grid and w = world0]
    by (simp add: Let_def code_grid_def)
  from run_grid_no_cutoff k f c show ?thesis by blast
qed

section \<open>The entry point\<close>

text \<open>
  Claim C7. With the flag unset \<^verbatim>\<open>main\<close> does nothing and the process exits with
  code 0; with the flag set \<^verbatim>\<open>main\<close> is a call of \<^verbatim>\<open>dump_reference_json\<close>, and the
  exit code is 0 exactly when that call returns.
\<close>

theorem generator_runs_iff_flag_set:
  "main L (PBool flag) w = (if flag then dump_reference_json L w else (None, w))
   \<and> script L False w = (0, w)
   \<and> snd (script L True w) = snd (dump_reference_json L w)
   \<and> fst (script L True w) = (case fst (dump_reference_json L w) of None \<Rightarrow> 0 | Some e \<Rightarrow> 1)"
  by (cases "dump_reference_json L w")
     (simp add: main_def script_def eq_True_def split: option.splits)

theorem generator_runs_iff_flag_set_witness:
  "script lib0 False world0 = (0, world0)
   \<and> main lib0 (PBool True) world0 = dump_reference_json lib0 world0
   \<and> script lib0 True world0 = (1, snd (dump_reference_json lib0 world0))"
proof -
  have "fst (dump_reference_json lib0 world0) = Some (KeyError ''Cosine'')"
    by (simp add: run_code_grid)
  then show ?thesis
    using generator_runs_iff_flag_set [where L = lib0 and w = world0 and flag = True]
      generator_runs_iff_flag_set [where L = lib0 and w = world0 and flag = False]
    by (cases "script lib0 True world0") simp
qed

section \<open>The order of the traversal\<close>

text \<open>
  Claim C8. The traversal should visit every combination, cutoff outermost and the
  angular value innermost, appending a bundle for each. On the grid of the code the run
  prints one line and builds no descriptor at all; on the grid whose kernel arguments are
  filed under "Cosine" it builds the descriptor of the first combination only.
\<close>

theorem code_grid_run_visits_no_combination:
  "events_of world0 (snd (dump_reference_json lib0 world0)) = [Print [PStr fn, PFloat 3.5]]
   \<and> constructor_calls (events_of world0 (snd (dump_reference_json lib0 world0))) = []
   \<and> constructor_calls (events_of world0 (snd (dump_reference_json_on lib0 grid_Cosine world0)))
       = [hypers_of 3.5 6 0 0.5 ''RadialSpectrum'']"
  by (simp add: run_defs const_defs example_defs hypers_of_def)

section \<open>The override does not leak\<close>

text \<open>
  Claim C9. One round of the innermost loop with descriptor kind "PowerSpectrum" and angular
  value a hands the constructor \<^verbatim>\<open>max_angular\<close> = a, whatever the variable
  \<^verbatim>\<open>max_angular\<close> held when the round began (in particular the 0 that a
  "RadialSpectrum" round assigns): the \<^verbatim>\<open>for\<close> statement binds it again. And in every
  run, each constructor call with kind "PowerSpectrum" carries a value of the grid's
  angular axis.
\<close>

theorem power_spectrum_keeps_max_angular:
  "constructor_calls
      (events_of (env st) (env (snd (iteration L fr c kn tt kw ''PowerSpectrum'' gs mr a st))))
     = [hypers_of c mr a gs ''PowerSpectrum'']
   \<and> map_of (hypers_of c mr a gs ''PowerSpectrum'') ''max_angular'' = Some (PInt a)
   \<and> (\<forall>h \<in> set (constructor_calls (events_of w (snd (dump_reference_json_on L g w)))).
        map_of h ''soap_type'' = Some (PStr ''PowerSpectrum'')
          \<longrightarrow> (\<exists>a \<in> set (max_angulars g). map_of h ''max_angular'' = Some (PInt a)))"
proof (intro conjI ballI impI)
  show "constructor_calls
      (events_of (env st) (env (snd (iteration L fr c kn tt kw ''PowerSpectrum'' gs mr a st))))
     = [hypers_of c mr a gs ''PowerSpectrum'']"
    by (simp add: iteration_calls)
next
  show "map_of (hypers_of c mr a gs ''PowerSpectrum'') ''max_angular'' = Some (PInt a)"
    by (simp add: hypers_of_def)
next
  fix h
  assume "h \<in> set (constructor_calls (events_of w (snd (dump_reference_json_on L g w))))"
    and p: "map_of h ''soap_type'' = Some (PStr ''PowerSpectrum'')"
  then obtain c' mr' a' gs' s' where a': "a' \<in> set (max_angulars g)"
    and h: "h = hypers_of c' mr' (if ''RadialSpectrum'' = s' then 0 else a') gs' s'"
    using run_calls by blast
  from p have "s' = ''PowerSpectrum''"
    unfolding h by (simp add: hypers_of_def)
  then have "map_of h ''max_angular'' = Some (PInt a')"
    unfolding h by (simp add: hypers_of_def)
  with a' show "\<exists>a \<in> set (max_angulars g). map_of h ''max_angular'' = Some (PInt a)"
    by blast
qed

theorem power_spectrum_keeps_max_angular_witness:
  "max_angular locals0 = Some 0
   \<and> constructor_calls (events_of (env locals0) (env (snd (iteration lib0 PNone 3.5 ''Cosine''
        ''structure'' [(''zeta'', PInt 1)] ''PowerSpectrum'' 0.5 6 6 locals0))))
       = [hypers_of 3.5 6 6 0.5 ''PowerSpectrum'']
   \<and> hypers_of 3.5 6 6 0.5 ''PowerSpectrum''
       \<in> set (constructor_calls
            (events_of world0 (snd (dump_reference_json_on lib0 grid_power_first world0))))
   \<and> map_of (hypers_of 3.5 6 6 0.5 ''PowerSpectrum'') ''soap_type'' = Some (PStr ''PowerSpectrum'')
   \<and> (\<exists>a \<in> set (max_angulars grid_power_first).
         map_of (hypers_of 3.5 6 6 0.5 ''PowerSpectrum'') ''max_angular'' = Some (PInt a))"
proof -
  let ?h = "hypers_of 3.5 6 6 0.5 ''PowerSpectrum''"
  note inst = power_spectrum_keeps_max_angular [where st = locals0 and L = lib0 and fr = PNone
      and c = "3.5" and kn = "''Cosine''" and tt = "''structure''" and kw = "[(''zeta'', PInt 1)]"
      and gs = "0.5" and mr = 6 and a = 6 and w = world0 and g = grid_power_first]
  have m: "?h \<in> set (constructor_calls
             (events_of world0 (snd (dump_reference_json_on lib0 grid_power_first world0))))"
    by (simp add: calls_grid_power_first)
  have s: "map_of ?h ''soap_type'' = Some (PStr ''PowerSpectrum'')"
    by (simp add: hypers_of_def)
  have v: "max_angular locals0 = Some 0"
    by (simp add: locals0_def)
  from inst m s have "\<exists>a \<in> set (max_angulars grid_power_first).
         map_of ?h ''max_angular'' = Some (PInt a)"
    by blast
  with inst m s v show ?thesis
    by blast
qed

section \<open>The argument of main\<close>

text \<open>
  Claim C10. \<^verbatim>\<open>main\<close> calls \<^verbatim>\<open>dump_reference_json\<close> when its argument compares equal
  to True, and otherwise returns at once with the world untouched; no string compares
  equal to True, so a non-empty string, although truthy, does not start the generator.
\<close>

theorem main_runs_only_when_equal_True:
  "(eq_True v \<longrightarrow> main L v w = dump_reference_json L w)
   \<and> (\<not> eq_True v \<longrightarrow> main L v w = (None, w))
   \<and> \<not> eq_True (PStr s)"
  by (simp add: main_def eq_True_def)

theorem main_runs_only_when_equal_True_witness:
  "truthy (PStr ''yes'') \<and> \<not> eq_True (PStr ''yes'')
   \<and> main lib0 (PStr ''yes'') world0 = (None, world0)
   \<and> eq_True (PInt 1) \<and> main lib0 (PInt 1) world0 = dump_reference_json lib0 world0"
proof -
  have t: "truthy (PStr ''yes'')" by (simp add: truthy_def)
  have n: "\<not> eq_True (PStr ''yes'')" by (simp add: eq_True_def)
  have y: "eq_True (PInt 1)" by (simp add: eq_True_def)
  from main_runs_only_when_equal_True [where v = "PStr ''yes''" and L = lib0 and w = world0] n
  have a: "main lib0 (PStr ''yes'') world0 = (None, world0)" by blast
  from main_runs_only_when_equal_True [where v = "PInt 1" and L = lib0 and w = world0] y
  have b: "main lib0 (PInt 1) world0 = dump_reference_json lib0 world0" by blast
  from t n y a b show ?thesis by blast
qed

end
